theory Spec2Isabelle
  imports Complex_Main
begin

section \<open>Python strings and integers\<close>

text \<open>
  A Python \<open>str\<close> is a \<open>string\<close>: one \<open>char\<close> per code point, so \<open>length\<close> is
  Python's \<open>len\<close> (code points below 256). \<open>upper\<close> is \<open>str.upper\<close> on ASCII letters.
\<close>

definition upper_char :: "char \<Rightarrow> char" where
  "upper_char c =
     (if 97 \<le> (of_char c :: nat) \<and> (of_char c :: nat) \<le> 122
      then char_of ((of_char c :: nat) - 32) else c)"

definition upper :: "string \<Rightarrow> string" where
  "upper s = map upper_char s"

text \<open>\<open>s * n\<close>: the string repeated, empty for \<open>n \<le> 0\<close>.\<close>

definition str_mul :: "string \<Rightarrow> int \<Rightarrow> string" where
  "str_mul s n = concat (replicate (nat n) s)"

text \<open>\<open>xs[:j]\<close>: a negative bound counts from the end, and is clipped at the start.\<close>

definition slice_to :: "'a list \<Rightarrow> int \<Rightarrow> 'a list" where
  "slice_to xs j = (if j < 0 then take (nat (int (length xs) + j)) xs else take (nat j) xs)"

definition digit_char :: "nat \<Rightarrow> char" where
  "digit_char d = char_of (48 + d)"

function str_nat :: "nat \<Rightarrow> string" where
  "str_nat n = (if n < 10 then [digit_char n] else str_nat (n div 10) @ [digit_char (n mod 10)])"
  by pat_completeness auto
termination
  by (relation "measure (\<lambda>n. n)") auto

text \<open>\<open>str(i)\<close> of an integer.\<close>

definition str_int :: "int \<Rightarrow> string" where
  "str_int i = (if i < 0 then CHR ''-'' # str_nat (nat (- i)) else str_nat (nat i))"

text \<open>\<open>sep.join(values)\<close>.\<close>

fun join :: "string \<Rightarrow> string list \<Rightarrow> string" where
  "join sep [] = []"
| "join sep [x] = x"
| "join sep (x # y # ys) = x @ sep @ join sep (y # ys)"

text \<open>\<open>s.split('\n')\<close>: never empty, one more piece than there are line breaks.\<close>

fun split_lines :: "string \<Rightarrow> string list" where
  "split_lines [] = [[]]"
| "split_lines (c # cs) =
     (if c = CHR 0x0A then [] # split_lines cs
      else (case split_lines cs of [] \<Rightarrow> [[c]] | l # ls \<Rightarrow> (c # l) # ls))"

text \<open>
  \<open>format(s, ' ^n')\<close> and \<open>format(s, ' >n')\<close>: centred (the left padding is the smaller
  half) and right-justified in a field of \<open>n\<close> characters; a longer string is unchanged.
\<close>

definition center :: "string \<Rightarrow> nat \<Rightarrow> string" where
  "center s n =
     replicate ((n - length s) div 2) CHR '' '' @ s @
     replicate ((n - length s) - (n - length s) div 2) CHR '' ''"

definition rjust :: "string \<Rightarrow> nat \<Rightarrow> string" where
  "rjust s n = replicate (n - length s) CHR '' '' @ s"

section \<open>Exceptions\<close>

text \<open>
  Every exception the modelled code can raise, with the value it carries. The first three are
  the lookup errors of term/new\_colors.py, the next three the classes of
  exceptions/ex\_console.py, the last three Python's own.
\<close>

datatype exn =
    ColorTextError string
  | ColorBackgroundError string
  | ColorStyleError string
  | ErrorNotDefinedStyle string
  | ErrorNotDefinedBorderStyle string
  | ErrorNotDefinedColor string
  | ValueError string
  | IndexError
  | AttributeError

text \<open>A call that raises stops the calls after it.\<close>

fun and_then :: "'e + 'a \<Rightarrow> ('a \<Rightarrow> 'e + 'b) \<Rightarrow> 'e + 'b" where
  "and_then (Inl e) f = Inl e"
| "and_then (Inr x) f = f x"

text \<open>A loop whose body may raise: the first exception ends it.\<close>

fun for_each :: "('a \<Rightarrow> 's \<Rightarrow> 'e + 's) \<Rightarrow> 'a list \<Rightarrow> 's \<Rightarrow> 'e + 's" where
  "for_each f [] s = Inr s"
| "for_each f (x # xs) s = and_then (f x s) (for_each f xs)"

text \<open>
  Modelled from the spec: the language selector of consoleverse.config.lang, which is not
  under src/: one of English and Spanish.
\<close>

datatype language = en | es

text \<open>\<open>__str__\<close> of the three console errors: the template of the language, filled in.\<close>

definition ErrorNotDefinedStyle_str :: "language \<Rightarrow> string \<Rightarrow> string" where
  "ErrorNotDefinedStyle_str l style =
     (case l of
        en \<Rightarrow> ''The style '' @ [CHR 0x22] @ style @ [CHR 0x22] @ '' is not defined in the consoleverse''
      | es \<Rightarrow> ''El estilo '' @ [CHR 0x22] @ style @ [CHR 0x22] @ '' no esta definido en el consoleverse'')"

definition ErrorNotDefinedBorderStyle_str :: "language \<Rightarrow> string \<Rightarrow> string" where
  "ErrorNotDefinedBorderStyle_str l border_style =
     (case l of
        en \<Rightarrow> ''The border style '' @ [CHR 0x22] @ border_style @ [CHR 0x22] @ '' is not defined in the consoleverse''
      | es \<Rightarrow> ''El estilo de borde '' @ [CHR 0x22] @ border_style @ [CHR 0x22] @ '' no esta definido en el consoleverse'')"

definition ErrorNotDefinedColor_str :: "language \<Rightarrow> string \<Rightarrow> string" where
  "ErrorNotDefinedColor_str l color =
     (case l of
        en \<Rightarrow> ''The color '' @ [CHR 0x22] @ color @ [CHR 0x22] @ '' is not defined in the consoleverse''
      | es \<Rightarrow> ''El color '' @ [CHR 0x22] @ color @ [CHR 0x22] @ '' no esta definido en el consoleverse'')"

section \<open>term/new\_colors.py: the colour, background and style tables\<close>

definition RESET_FORMAT_COLOR :: int where
  "RESET_FORMAT_COLOR = 0"

text \<open>\<open>START_FORMAT_COLOR.format(color)\<close>: ESC, an opening bracket, the code, m.\<close>

definition start :: "int \<Rightarrow> string" where
  "start color = [CHR 0x1B, CHR ''[''] @ str_int color @ ''m''"

definition END_FORMAT_COLOR :: string where
  "END_FORMAT_COLOR = start RESET_FORMAT_COLOR"

definition reset :: string where
  "reset = END_FORMAT_COLOR"

definition COLORS :: "(string \<times> string) list" where
  "COLORS =
     [(''BLACK'', start 30), (''RED'', start 31), (''GREEN'', start 32), (''YELLOW'', start 33),
      (''BLUE'', start 34), (''MAGENTA'', start 35), (''CYAN'', start 36), (''WHITE'', start 37)]"

definition BACKGROUNDS :: "(string \<times> string) list" where
  "BACKGROUNDS =
     [(''BG_BLACK'', start 40), (''BG_RED'', start 41), (''BG_GREEN'', start 42),
      (''BG_YELLOW'', start 43), (''BG_BLUE'', start 44), (''BG_MAGENTA'', start 45),
      (''BG_CYAN'', start 46), (''BG_WHITE'', start 47)]"

definition STYLES :: "(string \<times> string) list" where
  "STYLES =
     [(''BOLD'', start 1), (''UNDERLINE'', start 4), (''BLINK'', start 5),
      (''REVERSE'', start 7), (''CONCEAL'', start 8)]"

text \<open>\<open>__getitem__\<close>: the sequence of the upper-cased name, or the table's error with the name.\<close>

definition ColorText_getitem :: "string \<Rightarrow> exn + string" where
  "ColorText_getitem color =
     (case map_of COLORS (upper color) of
        Some s \<Rightarrow> Inr s
      | None \<Rightarrow> Inl (ColorTextError color))"

definition ColorBackground_getitem :: "string \<Rightarrow> exn + string" where
  "ColorBackground_getitem background =
     (case map_of BACKGROUNDS (upper background) of
        Some s \<Rightarrow> Inr s
      | None \<Rightarrow> Inl (ColorBackgroundError background))"

definition ColorStyle_getitem :: "string \<Rightarrow> exn + string" where
  "ColorStyle_getitem style =
     (case map_of STYLES (upper style) of
        Some s \<Rightarrow> Inr s
      | None \<Rightarrow> Inl (ColorStyleError style))"

text \<open>\<open>__contains__\<close>: is the upper-cased name a key of the table.\<close>

definition ColorText_contains :: "string \<Rightarrow> bool" where
  "ColorText_contains color = (map_of COLORS (upper color) \<noteq> None)"

definition ColorBackground_contains :: "string \<Rightarrow> bool" where
  "ColorBackground_contains background = (map_of BACKGROUNDS (upper background) \<noteq> None)"

definition ColorStyle_contains :: "string \<Rightarrow> bool" where
  "ColorStyle_contains style = (map_of STYLES (upper style) \<noteq> None)"

section \<open>console.py: the configuration and the process around it\<close>

text \<open>The class attributes of \<open>_ConsoleConfig\<close> (the source's names start with an underscore).\<close>

record console_config =
  c_indentation_type :: string
  c_indentation_lvl :: string
  c_indentantion_size :: int
  c_is_init :: bool
  c_autoreset_colors :: bool

text \<open>The class attributes of \<open>ConsoleConfig\<close> of the package's \<open>__init__.py\<close>.\<close>

record facade_config =
  f_indentation_type :: string
  f_indentation_lvl :: string
  f_indentantion_size :: int
  f_is_start_console :: bool
  f_autoreset_colors :: bool

text \<open>
  What the operations read and change: the two configurations, the text written to standard
  output so far, the commands given to \<open>os.system\<close> so far, the platform's names and the
  current language.
\<close>

record world =
  engine :: console_config
  facade :: facade_config
  stdout :: string
  os_system :: "string list"
  os_name :: string
  platform_system :: string
  lang :: language

text \<open>\<open>print(text, end=endl)\<close>.\<close>

definition py_print :: "string \<Rightarrow> string \<Rightarrow> world \<Rightarrow> world" where
  "py_print s endl w = w\<lparr>stdout := stdout w @ s @ endl\<rparr>"

definition clear_screen :: "world \<Rightarrow> world" where
  "clear_screen w =
     w\<lparr>os_system := os_system w @ [if os_name w = ''nt'' then ''cls'' else ''clear'']\<rparr>"

text \<open>\<open>_ConsoleConfig.init\<close>.\<close>

definition ConsoleConfig_init :: "bool \<Rightarrow> string \<Rightarrow> int \<Rightarrow> bool \<Rightarrow> world \<Rightarrow> world" where
  "ConsoleConfig_init clear indentation_type indentation_size autoreset_colors w =
     (let w1 = w\<lparr>engine := (engine w)
                 \<lparr>c_indentation_lvl := [],
                  c_indentantion_size := indentation_size,
                  c_indentation_type := indentation_type,
                  c_autoreset_colors := autoreset_colors\<rparr>\<rparr>;
          w2 = (if clear then clear_screen w1 else w1)
      in w2\<lparr>engine := (engine w2)\<lparr>c_is_init := True\<rparr>\<rparr>)"

definition ConsoleConfig_reset_config :: "console_config \<Rightarrow> console_config" where
  "ConsoleConfig_reset_config c =
     c\<lparr>c_indentation_type := '' '', c_indentation_lvl := [], c_indentantion_size := 2,
       c_is_init := False, c_autoreset_colors := True\<rparr>"

text \<open>\<open>_ConsoleConfig._init\<close>: the lazy initialisation every print starts with.\<close>

definition ConsoleConfig_lazy_init :: "console_config \<Rightarrow> console_config" where
  "ConsoleConfig_lazy_init c =
     (if \<not> c_is_init c then c\<lparr>c_is_init := True, c_indentation_lvl := []\<rparr> else c)"

definition ConsoleConfig_add_indentation_lvl :: "console_config \<Rightarrow> console_config" where
  "ConsoleConfig_add_indentation_lvl c =
     c\<lparr>c_indentation_lvl :=
         c_indentation_lvl c @ str_mul (c_indentation_type c) (c_indentantion_size c)\<rparr>"

definition ConsoleConfig_del_indentation_lvl :: "console_config \<Rightarrow> console_config" where
  "ConsoleConfig_del_indentation_lvl c =
     c\<lparr>c_indentation_lvl := slice_to (c_indentation_lvl c) (- c_indentantion_size c)\<rparr>"

definition init :: "bool \<Rightarrow> string \<Rightarrow> int \<Rightarrow> bool \<Rightarrow> world \<Rightarrow> world" where
  "init clear indentation_type indentation_size autoreset_colors w =
     (let w1 = ConsoleConfig_init clear indentation_type indentation_size autoreset_colors w;
          w2 = (if clear then clear_screen w1 else w1)
      in w2\<lparr>engine := (engine w2)\<lparr>c_is_init := True\<rparr>\<rparr>)"

definition reset_config :: "world \<Rightarrow> world" where
  "reset_config w = w\<lparr>engine := ConsoleConfig_reset_config (engine w)\<rparr>"

definition add_lvl :: "world \<Rightarrow> world" where
  "add_lvl w = w\<lparr>engine := ConsoleConfig_add_indentation_lvl (engine w)\<rparr>"

definition del_lvl :: "world \<Rightarrow> world" where
  "del_lvl w = w\<lparr>engine := ConsoleConfig_del_indentation_lvl (engine w)\<rparr>"

text \<open>\<open>add_lvl\<close> and \<open>del_lvl\<close> of the package's \<open>__init__.py\<close>.\<close>

definition facade_add_lvl :: "world \<Rightarrow> world" where
  "facade_add_lvl w =
     w\<lparr>facade := (facade w)
        \<lparr>f_indentation_lvl :=
           f_indentation_lvl (facade w) @
           str_mul (f_indentation_type (facade w)) (f_indentantion_size (facade w))\<rparr>\<rparr>"

definition facade_del_lvl :: "world \<Rightarrow> world" where
  "facade_del_lvl w =
     w\<lparr>facade := (facade w)
        \<lparr>f_indentation_lvl :=
           slice_to (f_indentation_lvl (facade w)) (- f_indentantion_size (facade w))\<rparr>\<rparr>"

text \<open>The process as it starts: the class attributes' defaults, nothing written yet.\<close>

definition initial_world :: world where
  "initial_world =
     \<lparr>engine = \<lparr>c_indentation_type = '' '', c_indentation_lvl = [], c_indentantion_size = 2,
                c_is_init = False, c_autoreset_colors = True\<rparr>,
      facade = \<lparr>f_indentation_type = '' '', f_indentation_lvl = [], f_indentantion_size = 2,
                f_is_start_console = False, f_autoreset_colors = True\<rparr>,
      stdout = [], os_system = [], os_name = ''posix'', platform_system = ''Linux'',
      lang = en\<rparr>"

section \<open>console.py: printing\<close>

text \<open>
  An operation returns the new world, or the exception it raised with the world as the
  exception left it.
\<close>

type_synonym result = "(exn \<times> world) + world"

text \<open>
  \<open>_colorize\<close>. Each table is asked whether it contains the name before it is indexed.
  Modelled from the spec: \<open>StyleText\<close>, which console.py takes from consoleverse.term, is
  not under src/; the table of the five styles of term/new\_colors.py stands for it.
\<close>

definition colorize :: "string \<Rightarrow> string \<Rightarrow> string \<Rightarrow> string \<Rightarrow> bool \<Rightarrow> exn + string" where
  "colorize text color bg_color style reset_console_colors =
     and_then (if ColorText_contains color then ColorText_getitem color else Inr [])
       (\<lambda>ctext.
     and_then (if ColorBackground_contains bg_color then ColorBackground_getitem bg_color
               else Inr [])
       (\<lambda>cbaground.
     and_then (if ColorStyle_contains style then ColorStyle_getitem style else Inr [])
       (\<lambda>stext.
     Inr (ctext @ cbaground @ stext @ text @ (if reset_console_colors then reset else [])))))"

text \<open>\<open>__to_string\<close>: the values, given by their \<open>str\<close>, joined.\<close>

definition to_string :: "string list \<Rightarrow> string \<Rightarrow> string" where
  "to_string values sep = join sep values"

text \<open>
  \<open>println(*message, endl, withlvl, color, bg_color, reset_all_colors, style, sep)\<close>; the
  defaults are a line feed, True, '', '', True, '' and a space.
\<close>

definition println ::
  "string list \<Rightarrow> string \<Rightarrow> bool \<Rightarrow> string \<Rightarrow> string \<Rightarrow> bool \<Rightarrow> string \<Rightarrow> string \<Rightarrow> world \<Rightarrow> result"
where
  "println message endl withlvl color bg_color reset_all_colors style sep w =
     (let w1 = w\<lparr>engine := ConsoleConfig_lazy_init (engine w)\<rparr>;
          message1 = to_string message sep;
          message2 = (if withlvl then c_indentation_lvl (engine w1) @ message1 else message1)
      in case colorize message2 color bg_color style reset_all_colors of
           Inl e \<Rightarrow> Inl (e, w1)
         | Inr colorized_text \<Rightarrow> Inr (py_print colorized_text endl w1))"

definition new_line :: "world \<Rightarrow> result" where
  "new_line w = println [[]] [CHR 0x0A] False [] [] True [] '' '' w"

definition START_LANGS :: "language \<Rightarrow> string" where
  "START_LANGS l = (case l of en \<Rightarrow> ''START'' | es \<Rightarrow> ''INICIA'')"

definition END_LANGS :: "language \<Rightarrow> string" where
  "END_LANGS l = (case l of en \<Rightarrow> ''END'' | es \<Rightarrow> ''TERMINA'')"

definition start_block :: "string list \<Rightarrow> string \<Rightarrow> string \<Rightarrow> world \<Rightarrow> result" where
  "start_block message color bg_color w =
     and_then
       (println [START_LANGS (lang w) @ '' '' @ upper (to_string message '' '')]
          [CHR 0x0A] True color bg_color True [] '' '' w)
       (\<lambda>w1. Inr (add_lvl w1))"

definition end_block :: "string list \<Rightarrow> string \<Rightarrow> string \<Rightarrow> string \<Rightarrow> world \<Rightarrow> result" where
  "end_block message color bg_color style w =
     and_then
       (println [END_LANGS (lang w) @ '' '' @ upper (to_string message '' '')]
          [CHR 0x0A] True color bg_color True style '' '' (del_lvl w))
       new_line"

definition warning :: "string list \<Rightarrow> string \<Rightarrow> string \<Rightarrow> string \<Rightarrow> world \<Rightarrow> result" where
  "warning message color bg_color style w =
     println [''warning: '' @ to_string message '' ''] [CHR 0x0A] True color bg_color True style
       '' '' w"

definition error :: "string list \<Rightarrow> string \<Rightarrow> string \<Rightarrow> string \<Rightarrow> world \<Rightarrow> result" where
  "error message color bg_color style w =
     println [''error: >>> '' @ to_string message '' '' @ '' <<<''] [CHR 0x0A] True color bg_color
       True style '' '' w"

text \<open>\<open>line(size, style, color, bg_color, style_text)\<close>; the test is on \<open>line[:-1]\<close>.\<close>

definition line :: "int \<Rightarrow> string \<Rightarrow> string \<Rightarrow> string \<Rightarrow> string \<Rightarrow> world \<Rightarrow> result" where
  "line size' style color bg_color style_text w =
     (let line0 = str_mul style size';
          line1 = (if slice_to line0 (- 1) = '' '' then slice_to line0 (- 1) else line0)
      in and_then (println [line1] [CHR 0x0A] True color bg_color True style_text '' '' w)
           new_line)"

section \<open>The package's \_\_init\_\_.py: the facade's printing\<close>

text \<open>
  Modelled from the spec: \<open>get_color\<close>, \<open>get_background\<close>, \<open>get_style\<close> and
  \<open>reset_colors\<close> of consoleverse.term, which are not under src/. The spec: a
  case-insensitive lookup in the table, the empty name giving the empty sequence and an
  unknown name failing; one reset sequence, that of code 0.
\<close>

definition get_color :: "string \<Rightarrow> exn + string" where
  "get_color color =
     (if color = [] then Inr []
      else case map_of COLORS (upper color) of
             Some s \<Rightarrow> Inr s
           | None \<Rightarrow> Inl (ErrorNotDefinedColor color))"

definition get_background :: "string \<Rightarrow> exn + string" where
  "get_background bg_color =
     (if bg_color = [] then Inr []
      else case map_of BACKGROUNDS (upper bg_color) of
             Some s \<Rightarrow> Inr s
           | None \<Rightarrow> Inl (ErrorNotDefinedColor bg_color))"

definition get_style :: "string \<Rightarrow> exn + string" where
  "get_style style =
     (if style = [] then Inr []
      else case map_of STYLES (upper style) of
             Some s \<Rightarrow> Inr s
           | None \<Rightarrow> Inl (ErrorNotDefinedStyle style))"

definition reset_colors :: string where
  "reset_colors = start 0"

definition facade_clear_screen :: "world \<Rightarrow> world" where
  "facade_clear_screen w =
     w\<lparr>os_system :=
         os_system w @ [if platform_system w \<noteq> ''Windows'' then ''clear'' else ''cls'']\<rparr>"

definition start_console :: "bool \<Rightarrow> string \<Rightarrow> int \<Rightarrow> bool \<Rightarrow> world \<Rightarrow> world" where
  "start_console clear indentation_type indentation_size autoreset_colors w =
     (let w1 = w\<lparr>facade := (facade w)
                 \<lparr>f_indentation_lvl := [],
                  f_indentantion_size := indentation_size,
                  f_indentation_type := indentation_type,
                  f_autoreset_colors := autoreset_colors\<rparr>\<rparr>;
          w2 = (if clear then facade_clear_screen w1 else w1)
      in w2\<lparr>facade := (facade w2)\<lparr>f_is_start_console := True\<rparr>\<rparr>)"

text \<open>\<open>__start_console\<close>: \<open>start_console(False)\<close>, its other arguments at their defaults.\<close>

definition facade_lazy_start :: "world \<Rightarrow> world" where
  "facade_lazy_start w =
     (if \<not> f_is_start_console (facade w) then start_console False '' '' 2 True w else w)"

text \<open>The facade's \<open>_colorize\<close>: here \<open>reset_console_colors\<close> is a string, tested for truth.\<close>

definition facade_colorize :: "string \<Rightarrow> string \<Rightarrow> string \<Rightarrow> string \<Rightarrow> string \<Rightarrow> exn + string" where
  "facade_colorize text color bg_color style reset_console_colors =
     and_then (get_color color) (\<lambda>c.
     and_then (get_background bg_color) (\<lambda>b.
     and_then (get_style style) (\<lambda>s.
     Inr (c @ b @ s @ text @ (if reset_console_colors \<noteq> [] then reset_colors else [])))))"

definition facade_println ::
  "string list \<Rightarrow> string \<Rightarrow> bool \<Rightarrow> string \<Rightarrow> string \<Rightarrow> bool \<Rightarrow> string \<Rightarrow> string \<Rightarrow> world \<Rightarrow> result"
where
  "facade_println message endl withlvl color bg_color reset_all_colors style sep w =
     (let w1 = facade_lazy_start w;
          message1 = to_string message sep;
          message2 = (if withlvl then f_indentation_lvl (facade w1) @ message1 else message1);
          reset_console_colors =
            (if reset_all_colors \<or> f_autoreset_colors (facade w1) then reset_colors else [])
      in case facade_colorize message2 color bg_color style reset_console_colors of
           Inl e \<Rightarrow> Inl (e, w1)
         | Inr colorized_text \<Rightarrow> Inr (py_print colorized_text endl w1))"

definition facade_new_line :: "world \<Rightarrow> result" where
  "facade_new_line w = facade_println [[]] [CHR 0x0A] False [] [] True [] '' '' w"

definition facade_line :: "int \<Rightarrow> string \<Rightarrow> string \<Rightarrow> string \<Rightarrow> string \<Rightarrow> world \<Rightarrow> result" where
  "facade_line size' style color bg_color style_text w =
     (let line0 = str_mul style size';
          line1 = (if slice_to line0 (- 1) = '' '' then slice_to line0 (- 1) else line0)
      in and_then (facade_println [line1] [CHR 0x0A] True color bg_color True style_text '' '' w)
           facade_new_line)"

section \<open>console.py: matrices\<close>

text \<open>
  A matrix is the list of its rows, a row the list of its cells, a cell its \<open>str\<close>. A
  \<open>header\<close> or \<open>indexes\<close> argument is a string (such as 'all'), a list of strings, or
  None. An item of what \<open>__max_len_value\<close> walks over is a list or a single value.
\<close>

datatype labels = Text string | Items "string list" | Absent

datatype item = Row "string list" | Cell string

text \<open>The items of a header or an index argument: iterating a string gives its characters.\<close>

definition labels_list :: "labels \<Rightarrow> string list" where
  "labels_list l = (case l of Text s \<Rightarrow> map (\<lambda>c. [c]) s | Items xs \<Rightarrow> xs | Absent \<Rightarrow> [])"

text \<open>The truth value of a header: a non-empty string or list.\<close>

definition labels_true :: "labels \<Rightarrow> bool" where
  "labels_true l = (case l of Text s \<Rightarrow> s \<noteq> [] | Items xs \<Rightarrow> xs \<noteq> [] | Absent \<Rightarrow> False)"

text \<open>The inner \<open>max_value(cell)\<close> of \<open>__max_len_value\<close>, with the \<open>max_len\<close> it reads.\<close>

definition max_value :: "string \<Rightarrow> nat \<Rightarrow> string \<Rightarrow> nat" where
  "max_value nan_format max_len cellstr =
     max max_len
       (length (if cellstr \<in> set [''None'', ''nan'', ''NaN''] then nan_format else cellstr))"

definition max_len_value :: "item list \<Rightarrow> string \<Rightarrow> nat" where
  "max_len_value matrix nan_format =
     fold (\<lambda>row max_len.
             case row of
               Row cols \<Rightarrow> fold (\<lambda>col m. max_value nan_format m col) cols max_len
             | Cell c \<Rightarrow> max_value nan_format max_len c)
       matrix 0"

definition print_matrix_header ::
  "string list \<Rightarrow> nat \<Rightarrow> string \<Rightarrow> string \<Rightarrow> bool \<Rightarrow> nat \<Rightarrow> nat \<Rightarrow> world \<Rightarrow> result"
where
  "print_matrix_header header len_index color_index extra_spacing withlvl mlv lvl_space w =
     (let spaces = replicate (len_index + lvl_space) CHR '' '';
          indentation = (if withlvl then c_indentation_lvl (engine w) else [])
      in and_then (println [indentation @ spaces @ extra_spacing] [] False [] [] True [] '' '' w)
           (\<lambda>w1.
         and_then
           (for_each
              (\<lambda>h. println ['' '' @ center h mlv @ '' ''] [] False color_index [] True [] '' '')
              header w1)
           new_line))"

text \<open>
  A cell's \<open>println\<close>: the \<open>color\<close> of \<open>print_matrix\<close> defaults to None, and the
  membership test of the colour table calls \<open>upper\<close> on it.
\<close>

definition println_cell :: "string \<Rightarrow> string option \<Rightarrow> world \<Rightarrow> result" where
  "println_cell s color w =
     (case color of
        None \<Rightarrow> Inl (AttributeError, w\<lparr>engine := ConsoleConfig_lazy_init (engine w)\<rparr>)
      | Some c \<Rightarrow> println [s] [] False c [] True [] '' '' w)"

definition print_matrix_row ::
  "string list \<Rightarrow> nat \<Rightarrow> string option \<Rightarrow> string \<Rightarrow> string \<Rightarrow> string \<Rightarrow> string \<Rightarrow> string \<Rightarrow>
   string \<Rightarrow> string \<Rightarrow> world \<Rightarrow> result"
where
  "print_matrix_row row mlv color nan_format color_style color_index end_line start_line
     index_name indentation w =
     and_then (println [indentation] [] False [] [] True [] '' '' w) (\<lambda>w1.
     and_then (println [index_name] [] False color_index [] True [] '' '' w1) (\<lambda>w2.
     and_then (println [start_line] [] False color_style [] True [] '' '' w2) (\<lambda>w3.
     and_then
       (for_each
          (\<lambda>cell.
             println_cell
               ('' '' @
                center (if cell \<in> set [''None'', ''nan'', ''NaN'', []] then nan_format else cell)
                  mlv @
                '' '')
               color)
          row w3) (\<lambda>w4.
     println [end_line] [CHR 0x0A] False color_style [] True [] '' '' w4))))"

text \<open>\<open>f'{indexes[index_row_id]: >{len_index}}' if indexes is not None else ''\<close>.\<close>

definition index_name_of :: "labels \<Rightarrow> nat \<Rightarrow> nat \<Rightarrow> exn + string" where
  "index_name_of indexes index_row_id len_index =
     (case indexes of
        Absent \<Rightarrow> Inr []
      | Items xs \<Rightarrow>
          if index_row_id < length xs then Inr (rjust (xs ! index_row_id) len_index)
          else Inl IndexError
      | Text s \<Rightarrow>
          if index_row_id < length s then Inr (rjust [s ! index_row_id] len_index)
          else Inl IndexError)"

text \<open>A top or bottom line is printed when it is neither None nor empty.\<close>

definition print_border_line :: "string option \<Rightarrow> string \<Rightarrow> world \<Rightarrow> result" where
  "print_border_line border_line color_style w =
     (case border_line of
        None \<Rightarrow> Inr w
      | Some l \<Rightarrow>
          if l \<noteq> [] then println [l] [CHR 0x0A] False color_style [] True [] '' '' w
          else Inr w)"

definition print_matrix_base ::
  "string list list \<Rightarrow> labels \<Rightarrow> labels \<Rightarrow> string \<Rightarrow> string option \<Rightarrow> string \<Rightarrow> string \<Rightarrow>
   nat \<Rightarrow> nat \<Rightarrow> bool \<Rightarrow> string \<Rightarrow> string \<Rightarrow> string option \<Rightarrow> string option \<Rightarrow> nat \<Rightarrow>
   world \<Rightarrow> result"
where
  "print_matrix_base matrix header indexes nan_format color color_index color_style mlv
     len_index withlvl start_line end_line top_line bottom_line level_space w =
     (let indentation = (if withlvl then c_indentation_lvl (engine w) else [])
      in and_then
           (if labels_true header
            then print_matrix_header (labels_list header) len_index color_index [] withlvl mlv
                   level_space w
            else Inr w) (\<lambda>w1.
         and_then (print_border_line top_line color_style w1) (\<lambda>w2.
         and_then
           (for_each
              (\<lambda>(index_row_id, row) w'.
                 case index_name_of indexes index_row_id len_index of
                   Inl e \<Rightarrow> Inl (e, w')
                 | Inr index_name \<Rightarrow>
                     print_matrix_row row mlv color nan_format color_style color_index end_line
                       start_line index_name indentation w')
              (enumerate 0 matrix) w2) (\<lambda>w3.
         print_border_line bottom_line color_style w3))))"

text \<open>
  \<open>__print_matrix_box_style\<close>. The arguments of the call of \<open>__print_matrix_base\<close> are
  evaluated before the call, \<open>new_line()\<close> (which returns None) among them.
\<close>

definition print_matrix_box_style ::
  "string list list \<Rightarrow> labels \<Rightarrow> labels \<Rightarrow> string \<Rightarrow> string option \<Rightarrow> string \<Rightarrow> string \<Rightarrow>
   nat \<Rightarrow> nat \<Rightarrow> string \<Rightarrow> bool \<Rightarrow> world \<Rightarrow> result"
where
  "print_matrix_box_style matrix header indexes nan_format color color_index color_style mlv
     len_index style withlvl w =
     (case matrix of
        [] \<Rightarrow> Inl (IndexError, w)
      | row0 # _ \<Rightarrow>
          (let div' = replicate (length row0 * mlv) CHR ''-'' @
                      replicate (length row0 * 2) CHR ''-'';
               spaces = replicate (len_index + 3) CHR '' '';
               indentation = (if withlvl then c_indentation_lvl (engine w) else [])
           in if style = ''box''
              then print_matrix_base matrix header indexes nan_format color color_index
                     color_style mlv len_index withlvl '' | '' '' | ''
                     (Some (indentation @ spaces @ div')) (Some (indentation @ spaces @ div'))
                     3 w
              else and_then (new_line w)
                     (print_matrix_base matrix header indexes nan_format color color_index
                        color_style mlv len_index withlvl '' | '' []
                        (Some (indentation @ spaces @ div')) None 3)))"

definition print_matrix_numpy_style ::
  "string list list \<Rightarrow> labels \<Rightarrow> labels \<Rightarrow> string \<Rightarrow> string option \<Rightarrow> string \<Rightarrow> string \<Rightarrow>
   nat \<Rightarrow> nat \<Rightarrow> bool \<Rightarrow> world \<Rightarrow> result"
where
  "print_matrix_numpy_style matrix header indexes nan_format color color_index color_style mlv
     len_index withlvl w =
     (let indentation = (if withlvl then c_indentation_lvl (engine w) else [])
      in and_then
           (if header \<noteq> Absent
            then print_matrix_header (labels_list header) len_index color_index ''   '' withlvl
                   mlv 3 w
            else Inr w) (\<lambda>w1.
         for_each
           (\<lambda>(index_row_id, row) w'.
              and_then
                (if index_row_id = 0
                 then println [indentation, ''[ ''] [] False color_style [] True [] '' '' w'
                 else println [''  '', indentation] [] False [] [] True [] '' '' w') (\<lambda>w''.
              case index_name_of indexes index_row_id len_index of
                Inl e \<Rightarrow> Inl (e, w'')
              | Inr index_name \<Rightarrow>
                  print_matrix_row row mlv color nan_format color_style color_index
                    (if length matrix \<noteq> index_row_id + 1 then '' ]'' else '' ]  ]'')
                    '' [ '' index_name indentation w''))
           (enumerate 0 matrix) w1))"

definition print_matrix_without_style ::
  "string list list \<Rightarrow> labels \<Rightarrow> labels \<Rightarrow> string \<Rightarrow> string option \<Rightarrow> string \<Rightarrow> string \<Rightarrow>
   nat \<Rightarrow> nat \<Rightarrow> bool \<Rightarrow> world \<Rightarrow> result"
where
  "print_matrix_without_style matrix header indexes nan_format color color_index color_style
     mlv len_index withlvl w =
     print_matrix_base matrix header indexes nan_format color color_index color_style mlv
       len_index withlvl [] [] (Some []) (Some []) 0 w"

text \<open>
  Modelled from the spec: the box-drawing glyphs \<open>Line\<close> of consoleverse.term, which are not
  under src/: the horizontal and vertical glyph and the four corners of the single-line
  and of the double-line set, each a string. They are a parameter \<open>L\<close> of what draws with them.
\<close>

record line_glyphs =
  Line_SH :: string
  Line_SV :: string
  Line_STL :: string
  Line_STR :: string
  Line_SBL :: string
  Line_SBR :: string
  Line_DH :: string
  Line_DV :: string
  Line_DTL :: string
  Line_DTR :: string
  Line_DBL :: string
  Line_DBR :: string

definition print_matrix_simpleline_style ::
  "line_glyphs \<Rightarrow> string list list \<Rightarrow> labels \<Rightarrow> labels \<Rightarrow> string \<Rightarrow> string option \<Rightarrow> string \<Rightarrow>
   string \<Rightarrow> nat \<Rightarrow> nat \<Rightarrow> bool \<Rightarrow> world \<Rightarrow> result"
where
  "print_matrix_simpleline_style L matrix header indexes nan_format color color_index
     color_style mlv len_index withlvl w =
     (case matrix of
        [] \<Rightarrow> Inl (IndexError, w)
      | row0 # _ \<Rightarrow>
          (let div' = str_mul (Line_SH L) (int (length row0 * mlv + length row0 * 2 + 2));
               spaces = replicate (len_index + 1) CHR '' '';
               indentation = (if withlvl then c_indentation_lvl (engine w) else [])
           in print_matrix_base matrix header indexes nan_format color color_index color_style
                mlv len_index withlvl ('' '' @ Line_SV L @ '' '') ('' '' @ Line_SV L @ '' '')
                (Some (indentation @ spaces @ Line_STL L @ div' @ Line_STR L))
                (Some (indentation @ spaces @ Line_SBL L @ div' @ Line_SBR L)) 3 w))"

definition print_matrix_doubleline_style ::
  "line_glyphs \<Rightarrow> string list list \<Rightarrow> labels \<Rightarrow> labels \<Rightarrow> string \<Rightarrow> string option \<Rightarrow> string \<Rightarrow>
   string \<Rightarrow> nat \<Rightarrow> nat \<Rightarrow> bool \<Rightarrow> world \<Rightarrow> result"
where
  "print_matrix_doubleline_style L matrix header indexes nan_format color color_index
     color_style mlv len_index withlvl w =
     (case matrix of
        [] \<Rightarrow> Inl (IndexError, w)
      | row0 # _ \<Rightarrow>
          (let div' = str_mul (Line_DH L) (int (length row0 * mlv + length row0 * 2 + 2));
               spaces = replicate (len_index + 1) CHR '' '';
               indentation = (if withlvl then c_indentation_lvl (engine w) else [])
           in print_matrix_base matrix header indexes nan_format color color_index color_style
                mlv len_index withlvl ('' '' @ Line_DV L @ '' '') ('' '' @ Line_DV L @ '' '')
                (Some (indentation @ spaces @ Line_DTL L @ div' @ Line_DTR L))
                (Some (indentation @ spaces @ Line_DBL L @ div' @ Line_DBR L)) 3 w))"

text \<open>
  \<open>print_matrix(matrix, header, indexes, style, nan_format, color, color_index,
  color_style, withlvl)\<close>; the defaults are 'all', 'all', 'box', '', None, '', '' and True.
\<close>

definition print_matrix ::
  "line_glyphs \<Rightarrow> string list list \<Rightarrow> labels \<Rightarrow> labels \<Rightarrow> string option \<Rightarrow> string \<Rightarrow>
   string option \<Rightarrow> string \<Rightarrow> string \<Rightarrow> bool \<Rightarrow> world \<Rightarrow> result"
where
  "print_matrix L matrix header indexes style nan_format color color_index color_style
     withlvl w =
     (let indexes1 = (if indexes = Text ''all''
                      then Items (map (\<lambda>i. str_int (int i)) [0..<length matrix])
                      else indexes)
      in case (if header = Text ''all''
               then (case matrix of
                       [] \<Rightarrow> Inl IndexError
                     | row0 # _ \<Rightarrow> Inr (Items (map (\<lambda>i. str_int (int i)) [0..<length row0])))
               else Inr header) of
           Inl e \<Rightarrow> Inl (e, w)
         | Inr header1 \<Rightarrow>
             (let mlv = max (max_len_value (map Row matrix) nan_format)
                          (max_len_value (map Cell (labels_list header1)) nan_format);
                  len_index = (case indexes1 of
                                 Items xs \<Rightarrow> max_len_value (map Cell xs) nan_format
                               | Text s \<Rightarrow> 0
                               | Absent \<Rightarrow> 0)
              in case style of
                   None \<Rightarrow>
                     print_matrix_without_style matrix header1 indexes1 nan_format color
                       color_index color_style mlv len_index withlvl w
                 | Some s \<Rightarrow>
                     if s \<in> set [''box'', ''semibox'']
                     then print_matrix_box_style matrix header1 indexes1 nan_format color
                            color_index color_style mlv len_index s withlvl w
                     else if s \<in> set [''numpy'', ''np'']
                     then print_matrix_numpy_style matrix header1 indexes1 nan_format color
                            color_index color_style mlv len_index withlvl w
                     else if s \<in> set [''simpleline'', ''sl'', ''line'']
                     then print_matrix_simpleline_style L matrix header1 indexes1 nan_format
                            color color_index color_style mlv len_index withlvl w
                     else if s \<in> set [''doubleline'', ''dl'']
                     then print_matrix_doubleline_style L matrix header1 indexes1 nan_format
                            color color_index color_style mlv len_index withlvl w
                     else Inl (ErrorNotDefinedStyle (''Unknown style: '' @ s), w)))"

section \<open>console.py: text boxes and progress bars\<close>

text \<open>What \<open>textbox\<close> prints once the border has given it its four strings.\<close>

definition textbox_frame ::
  "string list \<Rightarrow> nat \<Rightarrow> string \<Rightarrow> string \<Rightarrow> string \<Rightarrow> string \<Rightarrow> bool \<Rightarrow> string \<Rightarrow> string \<Rightarrow>
   bool \<Rightarrow> string \<Rightarrow> string \<Rightarrow> string \<Rightarrow> world \<Rightarrow> result"
where
  "textbox_frame lines max_len top' bottom vertical_blank vertical withlvl color bg_color
     reset_all_colors style border_color border_style w =
     and_then (println [top'] [CHR 0x0A] withlvl border_color [] True border_style '' '' w)
       (\<lambda>w1.
     and_then
       (println [vertical_blank] [CHR 0x0A] withlvl border_color [] True border_style '' '' w1)
       (\<lambda>w2.
     and_then
       (for_each
          (\<lambda>l w'.
             and_then (println [vertical] [] withlvl border_color [] True border_style '' '' w')
               (\<lambda>wa.
             and_then
               (println ['' '' @ l @ '' ''] [] False color bg_color reset_all_colors style '' ''
                  wa) (\<lambda>wb.
             and_then
               (println [replicate (max_len - length l) CHR '' ''] [] False [] [] True []
                  '' '' wb) (\<lambda>wc.
             println [vertical] [CHR 0x0A] False border_color [] True border_style '' '' wc))))
          lines w2) (\<lambda>w3.
     and_then
       (println [vertical_blank] [CHR 0x0A] withlvl border_color [] True border_style '' '' w3)
       (\<lambda>w4.
     println [bottom] [CHR 0x0A] withlvl border_color [] True border_style '' '' w4))))"

text \<open>
  \<open>textbox(*message, withlvl, color, bg_color, reset_all_colors, style, sep, border,
  border_color, border_style)\<close>. The lines of a message are never none, so their longest
  length is the \<open>max\<close> of the source.
\<close>

definition textbox ::
  "line_glyphs \<Rightarrow> string list \<Rightarrow> bool \<Rightarrow> string \<Rightarrow> string \<Rightarrow> bool \<Rightarrow> string \<Rightarrow> string \<Rightarrow> string \<Rightarrow>
   string \<Rightarrow> string \<Rightarrow> world \<Rightarrow> result"
where
  "textbox L message withlvl color bg_color reset_all_colors style sep border border_color
     border_style w =
     (let lines = split_lines (to_string message sep);
          max_len = fold max (map length lines) 0
      in if border = ''simpleline''
         then textbox_frame lines max_len
                (Line_STL L @ str_mul (Line_SH L) (int (max_len + 2)) @ Line_STR L)
                (Line_SBL L @ str_mul (Line_SH L) (int (max_len + 2)) @ Line_SBR L)
                (Line_SV L @ replicate (max_len + 2) CHR '' '' @ Line_SV L)
                (Line_SV L) withlvl color bg_color reset_all_colors style border_color border_style w
         else if border = ''doubleline''
         then textbox_frame lines max_len
                (Line_DTL L @ str_mul (Line_DH L) (int (max_len + 2)) @ Line_DTR L)
                (Line_DBL L @ str_mul (Line_DH L) (int (max_len + 2)) @ Line_DBR L)
                (Line_DV L @ replicate (max_len + 2) CHR '' '' @ Line_DV L)
                (Line_DV L) withlvl color bg_color reset_all_colors style border_color border_style w
         else Inl (ErrorNotDefinedStyle (''Unknown border style: '' @ border), w))"

text \<open>The keyword arguments \<open>progress_bar\<close> hands on to \<open>println\<close>.\<close>

record println_kwargs =
  kw_endl :: string
  kw_withlvl :: bool
  kw_color :: string
  kw_bg_color :: string
  kw_reset_all_colors :: bool
  kw_style :: string
  kw_sep :: string

definition no_kwargs :: println_kwargs where
  "no_kwargs =
     \<lparr>kw_endl = [CHR 0x0A], kw_withlvl = True, kw_color = [], kw_bg_color = [],
      kw_reset_all_colors = True, kw_style = [], kw_sep = '' ''\<rparr>"

definition println_kw :: "string list \<Rightarrow> println_kwargs \<Rightarrow> world \<Rightarrow> result" where
  "println_kw message kwargs w =
     println message (kw_endl kwargs) (kw_withlvl kwargs) (kw_color kwargs) (kw_bg_color kwargs)
       (kw_reset_all_colors kwargs) (kw_style kwargs) (kw_sep kwargs) w"

text \<open>\<open>int(x)\<close> of a number: towards zero.\<close>

definition py_int :: "rat \<Rightarrow> int" where
  "py_int x = (if x < 0 then \<lceil>x\<rceil> else \<lfloor>x\<rfloor>)"

text \<open>
  \<open>progress_bar(progress, width, bar, start_bar, end_bar, spacing, pct, **kwargs)\<close>. A
  finite float is a rational number and is compared as one; \<open>fl\<close> is the rounding of a
  float product to the nearest float, a parameter (the identity where the arithmetic is
  exact, as for integers and fractions). The floats that are not numbers are left out.
\<close>

definition progress_bar ::
  "(rat \<Rightarrow> rat) \<Rightarrow> rat \<Rightarrow> int \<Rightarrow> string \<Rightarrow> string \<Rightarrow> string \<Rightarrow> string \<Rightarrow> bool \<Rightarrow> println_kwargs \<Rightarrow>
   world \<Rightarrow> result"
where
  "progress_bar fl progress width bar start_bar end_bar spacing pct kwargs w =
     (if progress < 0 \<or> progress > 1
      then Inl (ValueError ''The progress must be between 0 and 1'', w)
      else if width < 0
      then Inl (ValueError ''The width must be greater than 0'', w)
      else if length bar \<noteq> 1
      then Inl (ValueError ''The bar must be a single character'', w)
      else if length start_bar \<noteq> 1
      then Inl (ValueError ''The start_bar must be a single character'', w)
      else if length end_bar \<noteq> 1
      then Inl (ValueError ''The end_bar must be a single character'', w)
      else (let progress_bar' = py_int (fl (progress * of_int width));
                pct_bar = (if pct then '' ('' @ str_int (py_int (fl (progress * 100))) @ ''%)''
                           else [])
            in println_kw
                 [start_bar @ str_mul bar progress_bar' @
                  str_mul spacing (width - progress_bar') @ end_bar @ pct_bar]
                 kwargs w))"

section \<open>Notions the statements use\<close>

text \<open>The sequence a table has for a name, and the empty one for a name that is no key.\<close>

definition lookup_or_empty :: "(string \<times> string) list \<Rightarrow> string \<Rightarrow> string" where
  "lookup_or_empty table name =
     (case map_of table (upper name) of Some s \<Rightarrow> s | None \<Rightarrow> [])"

text \<open>
  A call of \<open>start_block\<close> or of \<open>end_block\<close> with its arguments, a sequence of such
  calls run one after the other, and the sequences that are properly nested: every
  \<open>end_block\<close> closes a \<open>start_block\<close> that is still open, and none stays open
  (\<open>d\<close> counts the open ones).
\<close>

datatype block_call =
    Start "string list" string string
  | End "string list" string string string

fun run_block_call :: "block_call \<Rightarrow> world \<Rightarrow> result" where
  "run_block_call (Start message color bg_color) w = start_block message color bg_color w"
| "run_block_call (End message color bg_color style) w = end_block message color bg_color style w"

definition run_block_calls :: "block_call list \<Rightarrow> world \<Rightarrow> result" where
  "run_block_calls cs w = for_each run_block_call cs w"

fun properly_nested :: "nat \<Rightarrow> block_call list \<Rightarrow> bool" where
  "properly_nested d [] = (d = 0)"
| "properly_nested d (Start message color bg_color # cs) = properly_nested (Suc d) cs"
| "properly_nested d (End message color bg_color style # cs) =
     (0 < d \<and> properly_nested (d - 1) cs)"

section \<open>Initialisation and indentation\<close>

lemma slice_to_neg:
  "0 < n \<Longrightarrow> slice_to xs (- n) = take (length xs - nat n) xs"
  unfolding slice_to_def by (cases "int (length xs) < n") (auto simp: nat_diff_distrib')

text \<open>
  C9. \<open>init\<close> with \<open>clear=True\<close> gives the platform's screen-clear command to the
  operating system twice, once inside \<open>_ConsoleConfig.init\<close> and once itself; with
  \<open>clear=False\<close> it gives none, and the configuration (and the output) is the same in
  both cases.
\<close>

theorem init_clears_twice:
  "os_system (init True t n a w) =
     os_system w @ [if os_name w = ''nt'' then ''cls'' else ''clear'',
                    if os_name w = ''nt'' then ''cls'' else ''clear'']
   \<and> os_system (ConsoleConfig_init True t n a w) =
     os_system w @ [if os_name w = ''nt'' then ''cls'' else ''clear'']
   \<and> os_system (init False t n a w) = os_system w
   \<and> engine (init True t n a w) = engine (init False t n a w)
   \<and> engine (init True t n a w) =
     \<lparr>c_indentation_type = t, c_indentation_lvl = [], c_indentantion_size = n,
      c_is_init = True, c_autoreset_colors = a\<rparr>
   \<and> stdout (init True t n a w) = stdout w
   \<and> stdout (init False t n a w) = stdout w"
  by (simp add: init_def ConsoleConfig_init_def clear_screen_def Let_def)

text \<open>
  C10. With an indentation size of at least 1, \<open>del_lvl\<close> (of the engine and of the
  facade) returns the configuration with the last \<open>min(size, length)\<close> characters of the
  indentation removed and nothing else changed; an indentation of at most \<open>size\<close>
  characters, the empty one included, becomes empty. The model is a total function: no
  step of the source can raise.
\<close>

theorem del_lvl_total:
  "(1 \<le> c_indentantion_size (engine w) \<longrightarrow>
      engine (del_lvl w) =
        (engine w)\<lparr>c_indentation_lvl :=
          take (length (c_indentation_lvl (engine w)) -
                min (nat (c_indentantion_size (engine w))) (length (c_indentation_lvl (engine w))))
            (c_indentation_lvl (engine w))\<rparr>
      \<and> (length (c_indentation_lvl (engine w)) \<le> nat (c_indentantion_size (engine w)) \<longrightarrow>
           c_indentation_lvl (engine (del_lvl w)) = [])
      \<and> stdout (del_lvl w) = stdout w \<and> facade (del_lvl w) = facade w)
   \<and> (1 \<le> f_indentantion_size (facade w) \<longrightarrow>
      facade (facade_del_lvl w) =
        (facade w)\<lparr>f_indentation_lvl :=
          take (length (f_indentation_lvl (facade w)) -
                min (nat (f_indentantion_size (facade w))) (length (f_indentation_lvl (facade w))))
            (f_indentation_lvl (facade w))\<rparr>
      \<and> (length (f_indentation_lvl (facade w)) \<le> nat (f_indentantion_size (facade w)) \<longrightarrow>
           f_indentation_lvl (facade (facade_del_lvl w)) = [])
      \<and> stdout (facade_del_lvl w) = stdout w \<and> engine (facade_del_lvl w) = engine w)"
  by (auto simp: del_lvl_def facade_del_lvl_def ConsoleConfig_del_indentation_lvl_def
      slice_to_neg min_def)

theorem del_lvl_total_witness:
  "1 \<le> c_indentantion_size (engine (add_lvl (add_lvl initial_world)))
   \<and> c_indentation_lvl (engine (add_lvl (add_lvl initial_world))) = ''    ''
   \<and> c_indentation_lvl (engine (del_lvl (add_lvl (add_lvl initial_world)))) = ''  ''
   \<and> 1 \<le> f_indentantion_size (facade initial_world)
   \<and> f_indentation_lvl (facade (facade_del_lvl initial_world)) = []"
proof -
  have a: "1 \<le> c_indentantion_size (engine (add_lvl (add_lvl initial_world)))"
    by code_simp
  have b: "c_indentation_lvl (engine (add_lvl (add_lvl initial_world))) = ''    ''"
    by code_simp
  have c: "1 \<le> f_indentantion_size (facade initial_world)"
    by code_simp
  have d: "f_indentation_lvl (facade initial_world) = []"
    by code_simp
  from del_lvl_total [of "add_lvl (add_lvl initial_world)"] a
  have "c_indentation_lvl (engine (del_lvl (add_lvl (add_lvl initial_world)))) =
          take (length (c_indentation_lvl (engine (add_lvl (add_lvl initial_world)))) -
                min (nat (c_indentantion_size (engine (add_lvl (add_lvl initial_world)))))
                  (length (c_indentation_lvl (engine (add_lvl (add_lvl initial_world))))))
            (c_indentation_lvl (engine (add_lvl (add_lvl initial_world))))"
    by simp
  also have "\<dots> = ''  ''"
    by code_simp
  finally have e:
    "c_indentation_lvl (engine (del_lvl (add_lvl (add_lvl initial_world)))) = ''  ''" .
  from del_lvl_total [of initial_world] c d
  have f: "f_indentation_lvl (facade (facade_del_lvl initial_world)) = []"
    by simp
  from a b c e f show ?thesis by blast
qed

section \<open>Colours: what printing does with a name\<close>

lemma colorize_Inr:
  "colorize text color bg_color style r =
     Inr (lookup_or_empty COLORS color @ lookup_or_empty BACKGROUNDS bg_color @
          lookup_or_empty STYLES style @ text @ (if r then reset else []))"
  by (simp add: colorize_def lookup_or_empty_def ColorText_contains_def ColorText_getitem_def
      ColorBackground_contains_def ColorBackground_getitem_def
      ColorStyle_contains_def ColorStyle_getitem_def split: option.splits)

lemma println_Inr:
  "println message endl withlvl color bg_color r style sep w =
     Inr (py_print
       (lookup_or_empty COLORS color @ lookup_or_empty BACKGROUNDS bg_color @
        lookup_or_empty STYLES style @
        (if withlvl then c_indentation_lvl (ConsoleConfig_lazy_init (engine w)) else []) @
        join sep message @ (if r then reset else []))
       endl (w\<lparr>engine := ConsoleConfig_lazy_init (engine w)\<rparr>))"
  by (simp add: println_def colorize_Inr to_string_def Let_def)

lemma lookup_or_empty_Nil [simp]:
  "lookup_or_empty COLORS [] = []"
  "lookup_or_empty BACKGROUNDS [] = []"
  "lookup_or_empty STYLES [] = []"
  by (simp_all add: lookup_or_empty_def upper_def COLORS_def BACKGROUNDS_def STYLES_def)

lemma lazy_init_idem [simp]:
  "ConsoleConfig_lazy_init (ConsoleConfig_lazy_init c) = ConsoleConfig_lazy_init c"
  by (simp add: ConsoleConfig_lazy_init_def)

lemma new_line_Inr:
  "new_line w =
     Inr (py_print reset [CHR 0x0A] (w\<lparr>engine := ConsoleConfig_lazy_init (engine w)\<rparr>))"
  by (simp add: new_line_def println_Inr)

lemma start_block_Inr:
  "start_block message color bg_color w =
     Inr (add_lvl (py_print
       (lookup_or_empty COLORS color @ lookup_or_empty BACKGROUNDS bg_color @
        c_indentation_lvl (ConsoleConfig_lazy_init (engine w)) @
        START_LANGS (lang w) @ '' '' @ upper (join '' '' message) @ reset)
       [CHR 0x0A] (w\<lparr>engine := ConsoleConfig_lazy_init (engine w)\<rparr>)))"
  by (simp add: start_block_def println_Inr to_string_def)

lemma end_block_Inr:
  "end_block message color bg_color style w =
     Inr (py_print reset [CHR 0x0A] (py_print
       (lookup_or_empty COLORS color @ lookup_or_empty BACKGROUNDS bg_color @
        lookup_or_empty STYLES style @
        c_indentation_lvl (ConsoleConfig_lazy_init (engine (del_lvl w))) @
        END_LANGS (lang w) @ '' '' @ upper (join '' '' message) @ reset)
       [CHR 0x0A] (w\<lparr>engine := ConsoleConfig_lazy_init (engine (del_lvl w))\<rparr>)))"
  by (simp add: end_block_def println_Inr new_line_Inr to_string_def py_print_def del_lvl_def)

text \<open>
  C1, as the code has it. \<open>_colorize\<close> asks each table whether it contains the name
  before it indexes it, so no lookup fails: \<open>println\<close> (and \<open>warning\<close>, \<open>error\<close> and
  \<open>start_block\<close>, which print through it) never raises, and a colour, background or style
  name that is no key of its table, \<open>ULTRAVIOLET\<close> for one, adds the empty sequence to
  what is printed. Indexing a table with such a name does raise the table's error with
  the name; \<open>_colorize\<close> never does that.
\<close>

theorem println_unknown_name_unformatted:
  "println message endl withlvl color bg_color r style sep w =
     Inr (py_print
       (lookup_or_empty COLORS color @ lookup_or_empty BACKGROUNDS bg_color @
        lookup_or_empty STYLES style @
        (if withlvl then c_indentation_lvl (ConsoleConfig_lazy_init (engine w)) else []) @
        join sep message @ (if r then reset else []))
       endl (w\<lparr>engine := ConsoleConfig_lazy_init (engine w)\<rparr>))
   \<and> \<not> isl (warning message color bg_color style w)
   \<and> \<not> isl (error message color bg_color style w)
   \<and> \<not> isl (start_block message color bg_color w)
   \<and> lookup_or_empty COLORS ''ULTRAVIOLET'' = []
   \<and> ColorText_getitem ''ULTRAVIOLET'' = Inl (ColorTextError ''ULTRAVIOLET'')"
proof -
  have "lookup_or_empty COLORS ''ULTRAVIOLET'' = []"
    by code_simp
  moreover have "ColorText_getitem ''ULTRAVIOLET'' = Inl (ColorTextError ''ULTRAVIOLET'')"
    by code_simp
  ultimately show ?thesis
    by (simp add: println_Inr warning_def error_def start_block_Inr)
qed

text \<open>
  C1 as it is stated fails: \<open>println('x', color='ULTRAVIOLET')\<close> on a fresh console raises
  nothing and prints x, the reset sequence and the line end.
\<close>

theorem println_ultraviolet_prints:
  "println [''x''] [CHR 0x0A] True ''ULTRAVIOLET'' [] True [] '' '' initial_world =
     Inr (initial_world
       \<lparr>engine := (engine initial_world)\<lparr>c_is_init := True\<rparr>,
        stdout := ''x'' @ [CHR 0x1B, CHR ''['', CHR ''0'', CHR ''m''] @ [CHR 0x0A]\<rparr>)"
  by code_simp

section \<open>The reset sequence\<close>

text \<open>
  C2 at \<open>init(clear=False, autoreset_colors=True)\<close> followed by
  \<open>println('x', reset_all_colors=False)\<close>: the engine prints x and the line end with no
  reset sequence, although the configuration's flag is true; the facade's \<open>println\<close>,
  called the same way after \<open>start_console(False, autoreset_colors=True)\<close>, appends it.
\<close>

theorem println_ignores_autoreset_colors:
  "c_autoreset_colors (engine (init False '' '' 2 True initial_world))
   \<and> \<not> isl (println [''x''] [CHR 0x0A] True [] [] False [] '' ''
              (init False '' '' 2 True initial_world))
   \<and> stdout (projr (println [''x''] [CHR 0x0A] True [] [] False [] '' ''
                      (init False '' '' 2 True initial_world))) = ''x'' @ [CHR 0x0A]
   \<and> f_autoreset_colors (facade (start_console False '' '' 2 True initial_world))
   \<and> stdout (projr (facade_println [''x''] [CHR 0x0A] True [] [] False [] '' ''
                      (start_console False '' '' 2 True initial_world))) =
       ''x'' @ [CHR 0x1B, CHR ''['', CHR ''0'', CHR ''m''] @ [CHR 0x0A]"
  by code_simp

section \<open>Unknown border and matrix styles\<close>

text \<open>
  C3 at \<open>textbox('hi', border='foo')\<close>: the exception is \<open>ErrorNotDefinedStyle\<close>, not
  \<open>ErrorNotDefinedBorderStyle\<close>, and it carries the text 'Unknown border style: foo', so
  its message is that of an unknown style around that text. Nothing is printed before it.
\<close>

theorem textbox_unknown_border:
  "textbox L [''hi''] True [] [] True [] '' '' ''foo'' [] [] initial_world =
     Inl (ErrorNotDefinedStyle ''Unknown border style: foo'', initial_world)
   \<and> ErrorNotDefinedStyle_str en ''Unknown border style: foo'' =
       ''The style '' @ [CHR 0x22] @ ''Unknown border style: foo'' @ [CHR 0x22] @
       '' is not defined in the consoleverse''
   \<and> ErrorNotDefinedBorderStyle_str en ''foo'' =
       ''The border style '' @ [CHR 0x22] @ ''foo'' @ [CHR 0x22] @
       '' is not defined in the consoleverse''"
  by (simp add: textbox_def Let_def ErrorNotDefinedStyle_str_def
      ErrorNotDefinedBorderStyle_str_def)

text \<open>
  C4 at \<open>print_matrix([[1]], style='triangle')\<close>: the unknown-style error carries the text
  'Unknown style: triangle', not the name, and its message puts that text between the
  quotes. Nothing is printed before it.
\<close>

theorem print_matrix_unknown_style:
  "print_matrix L [[''1'']] (Text ''all'') (Text ''all'') (Some ''triangle'') [] (Some []) []
     [] True initial_world =
     Inl (ErrorNotDefinedStyle ''Unknown style: triangle'', initial_world)
   \<and> ErrorNotDefinedStyle_str en ''Unknown style: triangle'' =
       ''The style '' @ [CHR 0x22] @ ''Unknown style: triangle'' @ [CHR 0x22] @
       '' is not defined in the consoleverse''"
  by (simp add: print_matrix_def Let_def ErrorNotDefinedStyle_str_def)

section \<open>Horizontal rules\<close>

text \<open>
  C5 at the defaults, \<open>line()\<close>: the pattern '-- ' thirty times is printed whole, its last
  character a space, by the engine and by the facade. The test compares all but the last
  character of the rule with a space, so it holds only for a rule of two characters that
  starts with a space.
\<close>

theorem line_keeps_trailing_space:
  "\<not> isl (line 30 ''-- '' [] [] [] initial_world)
   \<and> stdout (projr (line 30 ''-- '' [] [] [] initial_world)) =
       str_mul ''-- '' 30 @ reset @ [CHR 0x0A] @ reset @ [CHR 0x0A]
   \<and> stdout (projr (facade_line 30 ''-- '' [] [] [] initial_world)) =
       str_mul ''-- '' 30 @ reset @ [CHR 0x0A] @ reset @ [CHR 0x0A]
   \<and> last (str_mul ''-- '' 30) = CHR '' ''"
  by code_simp

section \<open>Matrices in a box\<close>

text \<open>
  C6 at \<open>print_matrix([[1]], header=None, indexes=None, style='semibox', color='',
  withlvl=False)\<close>, next to the same call with \<open>style='box'\<close>. The right border of the
  row is left out, but the blank line that stands for the closing divider is the first
  thing printed, before the top divider: \<open>new_line()\<close> is an argument of the call that
  renders the matrix, and is run before it. After the last row nothing is printed.
\<close>

theorem semibox_blank_line_first:
  "stdout (projr (print_matrix L [[''1'']] Absent Absent (Some ''semibox'') [] (Some []) [] [] False initial_world)) =
  reset @ [CHR 0x0A] @ ''   ---'' @ reset @ [CHR 0x0A] @ reset @ reset @ '' | '' @ reset @ '' 1 '' @ reset @ reset @ [CHR 0x0A]
 \<and> stdout (projr (print_matrix L [[''1'']] Absent Absent (Some ''box'') [] (Some []) [] [] False initial_world)) =
  ''   ---'' @ reset @ [CHR 0x0A] @ reset @ reset @ '' | '' @ reset @ '' 1 '' @ reset @ '' | '' @ reset @ [CHR 0x0A] @ ''   ---'' @ reset @ [CHR 0x0A]"
  by (simp add: print_matrix_def print_matrix_box_style_def print_matrix_base_def
      print_matrix_row_def println_cell_def print_border_line_def new_line_Inr println_Inr
      index_name_of_def max_len_value_def max_value_def labels_list_def labels_true_def Let_def
      py_print_def center_def rjust_def enumerate_eq_zip initial_world_def
      ConsoleConfig_lazy_init_def eval_nat_numeral)

section \<open>Blocks\<close>

lemma concat_replicate_single: "concat (replicate k [x]) = replicate k x"
  by (induction k) auto

lemma str_mul_single: "str_mul [ch] n = replicate (nat n) ch"
  by (simp add: str_mul_def concat_replicate_single)

lemma start_block_engine:
  "\<exists>w1. start_block m c b w = Inr w1 \<and>
     engine w1 = ConsoleConfig_add_indentation_lvl (ConsoleConfig_lazy_init (engine w))"
  by (simp add: start_block_Inr add_lvl_def py_print_def)

lemma end_block_engine:
  "\<exists>w1. end_block m c b s w = Inr w1 \<and>
     engine w1 = ConsoleConfig_lazy_init (ConsoleConfig_del_indentation_lvl (engine w))"
  by (simp add: end_block_Inr del_lvl_def py_print_def)

lemma nested_run:
  assumes "c_indentation_type (engine w) = [ch]"
    and "1 \<le> c_indentantion_size (engine w)"
    and "c_is_init (engine w) \<or> c_indentation_lvl (engine w) = []"
    and "c_indentation_lvl (engine w) =
           base @ replicate (d * nat (c_indentantion_size (engine w))) ch"
    and "properly_nested d cs"
  shows "\<exists>w'. run_block_calls cs w = Inr w' \<and> c_indentation_lvl (engine w') = base"
  using assms
proof (induction cs arbitrary: d w)
  case Nil
  then show ?case by (simp add: run_block_calls_def)
next
  case (Cons c cs)
  let ?k = "nat (c_indentantion_size (engine w))"
  show ?case
  proof (cases c)
    case (Start m col bg)
    obtain w1 where w1: "start_block m col bg w = Inr w1"
      "engine w1 = ConsoleConfig_add_indentation_lvl (ConsoleConfig_lazy_init (engine w))"
      using start_block_engine by blast
    have a: "c_indentation_type (engine w1) = [ch]"
      and b: "c_indentantion_size (engine w1) = c_indentantion_size (engine w)"
      and c: "c_is_init (engine w1)"
      using Cons.prems w1(2)
      by (auto simp: ConsoleConfig_add_indentation_lvl_def ConsoleConfig_lazy_init_def)
    have "replicate (Suc d * ?k) ch = replicate (d * ?k) ch @ replicate ?k ch"
      by (simp add: replicate_add [symmetric])
    then have d: "c_indentation_lvl (engine w1) = base @ replicate (Suc d * ?k) ch"
      using Cons.prems w1(2)
      by (auto simp: ConsoleConfig_add_indentation_lvl_def ConsoleConfig_lazy_init_def
          str_mul_single)
    have "properly_nested (Suc d) cs"
      using Cons.prems Start by simp
    with Cons.IH [of w1 "Suc d"] a b c d Cons.prems(2)
    obtain w' where "run_block_calls cs w1 = Inr w'" "c_indentation_lvl (engine w') = base"
      by auto
    with Start w1(1) show ?thesis
      by (simp add: run_block_calls_def)
  next
    case (End m col bg st)
    with Cons.prems obtain d' where d': "d = Suc d'" "properly_nested d' cs"
      by (cases d) auto
    have k: "0 < ?k"
      using Cons.prems(2) by simp
    have init: "c_is_init (engine w)"
      using Cons.prems(3,4) d' k by auto
    obtain w1 where w1: "end_block m col bg st w = Inr w1"
      "engine w1 = ConsoleConfig_lazy_init (ConsoleConfig_del_indentation_lvl (engine w))"
      using end_block_engine by blast
    have a: "c_indentation_type (engine w1) = [ch]"
      and b: "c_indentantion_size (engine w1) = c_indentantion_size (engine w)"
      and c: "c_is_init (engine w1)"
      using Cons.prems init w1(2)
      by (auto simp: ConsoleConfig_del_indentation_lvl_def ConsoleConfig_lazy_init_def)
    have "slice_to (base @ replicate (Suc d' * ?k) ch) (- c_indentantion_size (engine w)) =
            base @ replicate (d' * ?k) ch"
      using Cons.prems(2) by (simp add: slice_to_neg min_def)
    then have d: "c_indentation_lvl (engine w1) = base @ replicate (d' * ?k) ch"
      using Cons.prems init w1(2) d'
      by (simp add: ConsoleConfig_del_indentation_lvl_def ConsoleConfig_lazy_init_def)
    from Cons.IH [of w1 d'] a b c d d'(2) Cons.prems(2)
    obtain w' where "run_block_calls cs w1 = Inr w'" "c_indentation_lvl (engine w') = base"
      by auto
    with End w1(1) show ?thesis
      by (simp add: run_block_calls_def)
  qed
qed

lemma flat_run:
  assumes "c_indentantion_size (engine w) \<le> 0"
    and "c_indentation_lvl (engine w) = []"
  shows "\<exists>w'. run_block_calls cs w = Inr w' \<and> c_indentation_lvl (engine w') = []"
  using assms
proof (induction cs arbitrary: w)
  case Nil
  then show ?case by (simp add: run_block_calls_def)
next
  case (Cons c cs)
  show ?case
  proof (cases c)
    case (Start m col bg)
    obtain w1 where w1: "start_block m col bg w = Inr w1"
      "engine w1 = ConsoleConfig_add_indentation_lvl (ConsoleConfig_lazy_init (engine w))"
      using start_block_engine by blast
    have "c_indentantion_size (engine w1) \<le> 0" "c_indentation_lvl (engine w1) = []"
      using Cons.prems w1(2)
      by (auto simp: ConsoleConfig_add_indentation_lvl_def ConsoleConfig_lazy_init_def
          str_mul_def)
    with Cons.IH [of w1]
    obtain w' where "run_block_calls cs w1 = Inr w'" "c_indentation_lvl (engine w') = []"
      by auto
    with Start w1(1) show ?thesis
      by (simp add: run_block_calls_def)
  next
    case (End m col bg st)
    obtain w1 where w1: "end_block m col bg st w = Inr w1"
      "engine w1 = ConsoleConfig_lazy_init (ConsoleConfig_del_indentation_lvl (engine w))"
      using end_block_engine by blast
    have "c_indentantion_size (engine w1) \<le> 0" "c_indentation_lvl (engine w1) = []"
      using Cons.prems w1(2)
      by (auto simp: ConsoleConfig_del_indentation_lvl_def ConsoleConfig_lazy_init_def
          slice_to_def)
    with Cons.IH [of w1]
    obtain w' where "run_block_calls cs w1 = Inr w'" "c_indentation_lvl (engine w') = []"
      by auto
    with End w1(1) show ?thesis
      by (simp add: run_block_calls_def)
  qed
qed

lemma slice_to_Nil [simp]: "slice_to [] j = []"
  by (simp add: slice_to_def)

lemma lazy_lvl:
  "c_is_init c \<or> c_indentation_lvl c = [] \<Longrightarrow>
   c_indentation_lvl (ConsoleConfig_lazy_init c) = c_indentation_lvl c"
  by (auto simp: ConsoleConfig_lazy_init_def)

lemma del_lazy_lvl:
  "c_is_init c \<or> c_indentation_lvl c = [] \<Longrightarrow>
   1 \<le> c_indentantion_size c \<or> c_indentation_lvl c = [] \<Longrightarrow>
   c_indentation_lvl (ConsoleConfig_lazy_init (ConsoleConfig_del_indentation_lvl c)) =
     take (length (c_indentation_lvl c) - nat (c_indentantion_size c)) (c_indentation_lvl c)"
  by (auto simp: ConsoleConfig_lazy_init_def ConsoleConfig_del_indentation_lvl_def slice_to_neg)

text \<open>
  C8. The indentation unit is one character, the indentation size is at least 1 or the
  indentation is empty (any configuration \<open>init\<close> gives, with whatever was added to it
  since), and the console is initialised or its indentation empty (a fresh one). Then
  every properly nested sequence of \<open>start_block\<close> and \<open>end_block\<close> calls runs to its
  end without an exception and leaves the indentation as it was; \<open>start_block\<close> prints
  its title line at the old indentation and then appends the unit repeated size times;
  \<open>end_block\<close> first strips the last size characters and prints its title line at what
  is left, then a blank line.
\<close>

theorem block_pairs_restore_indentation:
  assumes t: "length (c_indentation_type (engine w)) = 1"
    and s: "1 \<le> c_indentantion_size (engine w) \<or> c_indentation_lvl (engine w) = []"
    and i: "c_is_init (engine w) \<or> c_indentation_lvl (engine w) = []"
  shows
    "(properly_nested 0 cs \<longrightarrow>
        (\<exists>w'. run_block_calls cs w = Inr w' \<and>
               c_indentation_lvl (engine w') = c_indentation_lvl (engine w)))
     \<and> (\<exists>w1. start_block message color bg_color w = Inr w1 \<and>
           stdout w1 =
             stdout w @ lookup_or_empty COLORS color @ lookup_or_empty BACKGROUNDS bg_color @
             c_indentation_lvl (engine w) @ START_LANGS (lang w) @ '' '' @
             upper (join '' '' message) @ reset @ [CHR 0x0A] \<and>
           c_indentation_lvl (engine w1) =
             c_indentation_lvl (engine w) @
             str_mul (c_indentation_type (engine w)) (c_indentantion_size (engine w)))
     \<and> (\<exists>w2. end_block message color bg_color style w = Inr w2 \<and>
           c_indentation_lvl (engine w2) =
             take (length (c_indentation_lvl (engine w)) - nat (c_indentantion_size (engine w)))
               (c_indentation_lvl (engine w)) \<and>
           stdout w2 =
             stdout w @ lookup_or_empty COLORS color @ lookup_or_empty BACKGROUNDS bg_color @
             lookup_or_empty STYLES style @
             take (length (c_indentation_lvl (engine w)) - nat (c_indentantion_size (engine w)))
               (c_indentation_lvl (engine w)) @
             END_LANGS (lang w) @ '' '' @ upper (join '' '' message) @ reset @ [CHR 0x0A] @
             reset @ [CHR 0x0A])"
proof (intro conjI impI)
  assume n: "properly_nested 0 cs"
  show "\<exists>w'. run_block_calls cs w = Inr w' \<and>
          c_indentation_lvl (engine w') = c_indentation_lvl (engine w)"
  proof (cases "1 \<le> c_indentantion_size (engine w)")
    case True
    from t obtain ch where "c_indentation_type (engine w) = [ch]"
      by (cases "c_indentation_type (engine w)") auto
    from nested_run [OF this True i _ n, of "c_indentation_lvl (engine w)"]
    show ?thesis by simp
  next
    case False
    with s have "c_indentantion_size (engine w) \<le> 0" "c_indentation_lvl (engine w) = []"
      by auto
    from flat_run [OF this, of cs] this(2) show ?thesis by simp
  qed
next
  show "\<exists>w1. start_block message color bg_color w = Inr w1 \<and>
           stdout w1 =
             stdout w @ lookup_or_empty COLORS color @ lookup_or_empty BACKGROUNDS bg_color @
             c_indentation_lvl (engine w) @ START_LANGS (lang w) @ '' '' @
             upper (join '' '' message) @ reset @ [CHR 0x0A] \<and>
           c_indentation_lvl (engine w1) =
             c_indentation_lvl (engine w) @
             str_mul (c_indentation_type (engine w)) (c_indentantion_size (engine w))"
    using i
    by (auto simp: start_block_Inr add_lvl_def py_print_def ConsoleConfig_add_indentation_lvl_def
        ConsoleConfig_lazy_init_def)
next
  show "\<exists>w2. end_block message color bg_color style w = Inr w2 \<and>
           c_indentation_lvl (engine w2) =
             take (length (c_indentation_lvl (engine w)) - nat (c_indentantion_size (engine w)))
               (c_indentation_lvl (engine w)) \<and>
           stdout w2 =
             stdout w @ lookup_or_empty COLORS color @ lookup_or_empty BACKGROUNDS bg_color @
             lookup_or_empty STYLES style @
             take (length (c_indentation_lvl (engine w)) - nat (c_indentantion_size (engine w)))
               (c_indentation_lvl (engine w)) @
             END_LANGS (lang w) @ '' '' @ upper (join '' '' message) @ reset @ [CHR 0x0A] @
             reset @ [CHR 0x0A]"
    using del_lazy_lvl [OF i s]
    by (simp add: end_block_Inr del_lvl_def py_print_def)
qed

theorem block_pairs_restore_indentation_witness:
  "length (c_indentation_type (engine initial_world)) = 1
   \<and> 1 \<le> c_indentantion_size (engine initial_world)
   \<and> c_indentation_lvl (engine initial_world) = []
   \<and> properly_nested 0
        [Start [''a''] ''BLUE'' [], Start [''b''] ''BLUE'' [],
         End [''b''] ''BLUE'' [] [], End [''a''] ''BLUE'' [] []]
   \<and> (\<exists>w'. run_block_calls
               [Start [''a''] ''BLUE'' [], Start [''b''] ''BLUE'' [],
                End [''b''] ''BLUE'' [] [], End [''a''] ''BLUE'' [] []] initial_world = Inr w'
            \<and> c_indentation_lvl (engine w') = [])"
proof -
  have t: "length (c_indentation_type (engine initial_world)) = 1"
    by code_simp
  have s: "1 \<le> c_indentantion_size (engine initial_world)"
    by code_simp
  have l: "c_indentation_lvl (engine initial_world) = []"
    by code_simp
  have n: "properly_nested 0
        [Start [''a''] ''BLUE'' [], Start [''b''] ''BLUE'' [],
         End [''b''] ''BLUE'' [] [], End [''a''] ''BLUE'' [] []]"
    by simp
  from block_pairs_restore_indentation [of initial_world
      "[Start [''a''] ''BLUE'' [], Start [''b''] ''BLUE'' [],
        End [''b''] ''BLUE'' [] [], End [''a''] ''BLUE'' [] []]"] t s l n
  have "\<exists>w'. run_block_calls
               [Start [''a''] ''BLUE'' [], Start [''b''] ''BLUE'' [],
                End [''b''] ''BLUE'' [] [], End [''a''] ''BLUE'' [] []] initial_world = Inr w'
            \<and> c_indentation_lvl (engine w') = []"
    by simp
  with t s l n show ?thesis by blast
qed

section \<open>Progress bars\<close>

lemma py_int_nonneg: "0 \<le> x \<Longrightarrow> py_int x = \<lfloor>x\<rfloor>"
  by (simp add: py_int_def)

text \<open>
  C7. With \<open>progress\<close> between 0 and 1, a width of at least 0 and one-character
  \<open>bar\<close>, \<open>start_bar\<close> and \<open>end_bar\<close>, \<open>progress_bar\<close> is the \<open>println\<close> of
  \<open>start_bar\<close>, \<open>bar\<close> repeated \<open>floor(progress * width)\<close> times, \<open>spacing\<close> for the
  rest of the width, \<open>end_bar\<close> and, with \<open>pct\<close>, the suffix with
  \<open>floor(progress * 100)\<close>; the products are the float products, which are not negative.
  With any of the five checks failing it raises ValueError and leaves the world, its
  output included, as it was.
\<close>

theorem progress_bar_prints:
  "(0 \<le> progress \<and> progress \<le> 1 \<and> 0 \<le> width \<and> length bar = 1 \<and> length start_bar = 1 \<and>
    length end_bar = 1 \<and> 0 \<le> fl (progress * of_int width) \<and> 0 \<le> fl (progress * 100) \<longrightarrow>
      progress_bar fl progress width bar start_bar end_bar spacing pct kwargs w =
        println_kw
          [start_bar @ str_mul bar \<lfloor>fl (progress * of_int width)\<rfloor> @
           str_mul spacing (width - \<lfloor>fl (progress * of_int width)\<rfloor>) @ end_bar @
           (if pct then '' ('' @ str_int \<lfloor>fl (progress * 100)\<rfloor> @ ''%)'' else [])]
          kwargs w
      \<and> (\<exists>w'. progress_bar fl progress width bar start_bar end_bar spacing pct kwargs w = Inr w'
            \<and> stdout w' =
                stdout w @ lookup_or_empty COLORS (kw_color kwargs) @
                lookup_or_empty BACKGROUNDS (kw_bg_color kwargs) @
                lookup_or_empty STYLES (kw_style kwargs) @
                (if kw_withlvl kwargs
                 then c_indentation_lvl (ConsoleConfig_lazy_init (engine w)) else []) @
                start_bar @ str_mul bar \<lfloor>fl (progress * of_int width)\<rfloor> @
                str_mul spacing (width - \<lfloor>fl (progress * of_int width)\<rfloor>) @ end_bar @
                (if pct then '' ('' @ str_int \<lfloor>fl (progress * 100)\<rfloor> @ ''%)'' else []) @
                (if kw_reset_all_colors kwargs then reset else []) @ kw_endl kwargs))
   \<and> (progress < 0 \<or> 1 < progress \<or> width < 0 \<or> length bar \<noteq> 1 \<or> length start_bar \<noteq> 1 \<or>
       length end_bar \<noteq> 1 \<longrightarrow>
      (\<exists>msg. progress_bar fl progress width bar start_bar end_bar spacing pct kwargs w =
         Inl (ValueError msg, w)))"
  by (auto simp: progress_bar_def Let_def py_int_nonneg println_kw_def println_Inr py_print_def)

theorem progress_bar_prints_witness:
  "(0::rat) \<le> 1 / 2 \<and> (1::rat) / 2 \<le> 1 \<and> (0::int) \<le> 10
   \<and> length ''#'' = 1 \<and> length ''['' = 1 \<and> length '']'' = 1
   \<and> (\<exists>w'. progress_bar (\<lambda>x. x) (1 / 2) 10 ''#'' ''['' '']'' ''.'' True no_kwargs initial_world =
              Inr w'
          \<and> stdout w' = ''[#####.....] (50%)'' @ reset @ [CHR 0x0A])
   \<and> (1::rat) < 3 / 2
   \<and> (\<exists>msg. progress_bar (\<lambda>x. x) (3 / 2) 10 ''#'' ''['' '']'' ''.'' True no_kwargs initial_world =
              Inl (ValueError msg, initial_world))"
proof -
  have f1: "stdout initial_world = []"
    by code_simp
  have f2: "c_indentation_lvl (ConsoleConfig_lazy_init (engine initial_world)) = []"
    by code_simp
  have f3: "str_mul ''#'' 5 = ''#####''"
    by code_simp
  have f4: "str_mul ''.'' 5 = ''.....''"
    by code_simp
  have f5: "str_int 50 = ''50''"
    by code_simp
  have h: "(0::rat) \<le> 1 / 2 \<and> (1::rat) / 2 \<le> 1 \<and> (0::int) \<le> 10
      \<and> length ''#'' = 1 \<and> length ''['' = 1 \<and> length '']'' = 1
      \<and> (0::rat) \<le> 1 / 2 * of_int 10 \<and> (0::rat) \<le> 1 / 2 * 100"
    by simp
  from progress_bar_prints [of "1 / 2" 10 "''#''" "''[''" "'']''" "\<lambda>x. x" "''.''" True
      no_kwargs initial_world, THEN conjunct1, THEN mp, OF h, THEN conjunct2]
  have a: "\<exists>w'. progress_bar (\<lambda>x. x) (1 / 2) 10 ''#'' ''['' '']'' ''.'' True no_kwargs
               initial_world = Inr w'
          \<and> stdout w' = ''[#####.....] (50%)'' @ reset @ [CHR 0x0A]"
    by (simp add: f1 f2 f3 f4 f5 no_kwargs_def)
  from progress_bar_prints [of "3 / 2" 10 "''#''" "''[''" "'']''" "\<lambda>x. x" "''.''" True
      no_kwargs initial_world]
  have b: "\<exists>msg. progress_bar (\<lambda>x. x) (3 / 2) 10 ''#'' ''['' '']'' ''.'' True no_kwargs
               initial_world = Inl (ValueError msg, initial_world)"
    by simp
  from a b show ?thesis by simp
qed

section \<open>Further properties\<close>

lemma and_then_not_isl:
  "\<not> isl m \<Longrightarrow> (\<And>x. \<not> isl (f x)) \<Longrightarrow> \<not> isl (and_then m f)"
  by (cases m) auto

lemma for_each_not_isl:
  "(\<And>x s. \<not> isl (f x s)) \<Longrightarrow> \<not> isl (for_each f xs s)"
proof (induction xs arbitrary: s)
  case Nil
  show ?case by simp
next
  case (Cons a xs)
  have "\<not> isl (and_then (f a s) (for_each f xs))"
    by (rule and_then_not_isl) (rule Cons.prems, rule Cons.IH, rule Cons.prems)
  then show ?case by simp
qed

lemma println_not_isl [simp]:
  "\<not> isl (println message endl withlvl color bg_color r style sep w)"
  by (simp add: println_Inr)

lemma textbox_frame_not_isl:
  "\<not> isl (textbox_frame lines max_len t b vb v withlvl color bg_color r style bc bs w)"
  unfolding textbox_frame_def
  by (intro and_then_not_isl for_each_not_isl println_not_isl)

text \<open>
  \<open>textbox\<close> with the border 'simpleline' or 'doubleline' returns without an exception;
  with any other border it raises the unknown-style error with the text made of
  'Unknown border style: ' and the border, and leaves the world as it was.
\<close>

theorem textbox_border_cases:
  "textbox L message withlvl color bg_color r style sep border border_color border_style w =
     (if border = ''simpleline'' \<or> border = ''doubleline''
      then Inr (projr (textbox L message withlvl color bg_color r style sep border border_color
                         border_style w))
      else Inl (ErrorNotDefinedStyle (''Unknown border style: '' @ border), w))"
  using textbox_frame_not_isl
  by (auto simp: textbox_def Let_def)

text \<open>
  The rule \<open>line\<close> prints is the pattern repeated, whole, unless that has exactly two
  characters and starts with a space, when it is the one space.
\<close>

theorem line_rule_text:
  "line size' style color bg_color style_text w =
     and_then
       (println
          [if length (str_mul style size') = 2 \<and> hd (str_mul style size') = CHR '' ''
           then '' '' else str_mul style size']
          [CHR 0x0A] True color bg_color True style_text '' '' w)
       new_line"
proof -
  have b: "slice_to xs (- 1) = butlast xs" for xs :: string
    using slice_to_neg [of 1 xs] by (simp add: butlast_conv_take)
  have c: "(butlast xs = '' '') = (length xs = 2 \<and> hd xs = CHR '' '')" for xs :: string
  proof (cases xs)
    case Nil
    then show ?thesis by simp
  next
    case (Cons a as)
    then show ?thesis
      by (cases as) auto
  qed
  show ?thesis
    by (simp add: line_def Let_def b c [symmetric] cong: if_cong)
qed

text \<open>
  \<open>print_matrix\<close> on a matrix with a row, with a style that is none of the nine known
  names, raises the unknown-style error with the text made of 'Unknown style: ' and the
  style, and leaves the world as it was.
\<close>

theorem print_matrix_style_dispatch:
  "print_matrix L (row # rows) header indexes (Some s) nan_format color color_index color_style
     withlvl w =
     (if s \<in> set [''box'', ''semibox'', ''numpy'', ''np'', ''simpleline'', ''sl'', ''line'',
                   ''doubleline'', ''dl'']
      then print_matrix L (row # rows) header indexes (Some s) nan_format color color_index
             color_style withlvl w
      else Inl (ErrorNotDefinedStyle (''Unknown style: '' @ s), w))"
  by (auto simp: print_matrix_def Let_def)

end
